theory Spec2Isabelle
  imports Complex_Main
begin

section \<open>Data model (users/models.py)\<close>

text \<open>
  The two Django models, restricted to the columns the passenger serializers and views
  read or write.  \<open>pk\<close> is the implicit primary key of \<open>User\<close>; the timestamps
  (\<open>date_joined\<close>, \<open>created_at\<close>, \<open>updated_at\<close>) are set by the storage layer and are
  read by nothing below, so they are left out.  A \<open>Passenger\<close> value is the ORM object:
  its \<open>user\<close> attribute is the related \<open>User\<close> object (the views load it with
  \<open>select_related('user')\<close>).
\<close>

record User =
  pk :: nat
  email :: string
  user_type :: string
  phone_number :: string
  first_name :: string
  last_name :: string
  is_staff :: bool
  is_active :: bool

record Passenger =
  user :: User
  home_address :: string
  work_address :: string
  emergency_contact_name :: string
  emergency_contact_phone :: string
  preferred_payment_method :: string
  preferred_car_type :: string
  average_rating :: rat
  total_rides :: nat
  is_phone_verified :: bool
  is_profile_complete :: bool

section \<open>Python arithmetic used by the percentage\<close>

text \<open>
  \<open>completed_fields / total_fields * 100\<close> is Python 3 true division of two ints followed
  by a float multiplication, and \<open>int(...)\<close> truncates the float.  A finite binary64 value
  is modelled by the rational it denotes; \<open>fl\<close> rounds a rational to the nearest binary64
  value, ties to even (53 significant bits, gradual underflow below \<open>2 powi (- 1022)\<close>;
  overflow to infinity is not modelled, every value below is at most 100).
\<close>

function bits :: "int \<Rightarrow> nat" where
  "bits n = (if n \<le> 0 then 0 else Suc (bits (n div 2)))"
  by pat_completeness auto
termination
  by (relation "measure nat") auto

declare bits.simps [simp del]

definition round_half_even :: "rat \<Rightarrow> int" where
  "round_half_even x =
     (let f = \<lfloor>x\<rfloor>; d = x - of_int f
      in if d < 1 / 2 then f else if 1 / 2 < d then f + 1
         else if even f then f else f + 1)"

text \<open>\<open>float_exponent x\<close> is the integer \<open>e\<close> with \<open>2 powi e \<le> x < 2 powi (e + 1)\<close>, for \<open>0 < x\<close>.\<close>

definition float_exponent :: "rat \<Rightarrow> int" where
  "float_exponent x =
     (case quotient_of x of (p, q) \<Rightarrow>
        let s = int (bits p) - int (bits q)
        in if 2 powi s \<le> x then s else s - 1)"

definition fl :: "rat \<Rightarrow> rat" where
  "fl x = (if x = 0 then 0
           else let a = \<bar>x\<bar>;
                    e = max (float_exponent a - 52) (- 1074);
                    m = round_half_even (a / 2 powi e)
                in sgn x * of_int m * 2 powi e)"

text \<open>\<open>a / b\<close> on ints (the divisor below is the literal 6), \<open>x * y\<close> on floats, \<open>int(x)\<close>.\<close>

definition truediv :: "int \<Rightarrow> int \<Rightarrow> rat" where
  "truediv a b = fl (of_int a / of_int b)"

definition fmul :: "rat \<Rightarrow> rat \<Rightarrow> rat" where
  "fmul x y = fl (x * y)"

definition py_int :: "rat \<Rightarrow> int" where
  "py_int x = (if 0 \<le> x then \<lfloor>x\<rfloor> else \<lceil>x\<rceil>)"

section \<open>Completion percentage\<close>

text \<open>
  \<open>PassengerSerializer.get_profile_completion_percentage\<close> (users/serializers.py).
  A Python string is truthy exactly when it is not empty.
\<close>

definition get_profile_completion_percentage :: "Passenger \<Rightarrow> int" where
  "get_profile_completion_percentage obj =
     (let total_fields = (6 :: int);
          completed_fields = (0 :: int);
          completed_fields =
            (if first_name (user obj) \<noteq> [] then completed_fields + 1 else completed_fields);
          completed_fields =
            (if last_name (user obj) \<noteq> [] then completed_fields + 1 else completed_fields);
          completed_fields =
            (if phone_number (user obj) \<noteq> [] \<and> is_phone_verified obj
             then completed_fields + 1 else completed_fields);
          completed_fields =
            (if home_address obj \<noteq> [] then completed_fields + 1 else completed_fields);
          completed_fields =
            (if emergency_contact_name obj \<noteq> [] then completed_fields + 1 else completed_fields);
          completed_fields =
            (if emergency_contact_phone obj \<noteq> [] then completed_fields + 1 else completed_fields)
      in if total_fields > 0
         then py_int (fmul (truediv completed_fields total_fields) 100)
         else 0)"

text \<open>\<open>PassengerStatsView._calculate_completion_percentage\<close> (users/views.py): no guard.\<close>

definition calculate_completion_percentage :: "Passenger \<Rightarrow> int" where
  "calculate_completion_percentage passenger =
     (let total_fields = (6 :: int);
          completed_fields = (0 :: int);
          completed_fields =
            (if first_name (user passenger) \<noteq> [] then completed_fields + 1 else completed_fields);
          completed_fields =
            (if last_name (user passenger) \<noteq> [] then completed_fields + 1 else completed_fields);
          completed_fields =
            (if phone_number (user passenger) \<noteq> [] \<and> is_phone_verified passenger
             then completed_fields + 1 else completed_fields);
          completed_fields =
            (if home_address passenger \<noteq> [] then completed_fields + 1 else completed_fields);
          completed_fields =
            (if emergency_contact_name passenger \<noteq> []
             then completed_fields + 1 else completed_fields);
          completed_fields =
            (if emergency_contact_phone passenger \<noteq> []
             then completed_fields + 1 else completed_fields)
      in py_int (fmul (truediv completed_fields total_fields) 100))"

text \<open>
  The specification's wording of the percentage: the six presence predicates, the number
  of true ones, and the floor of the exact quotient.
\<close>

definition predicates :: "Passenger \<Rightarrow> bool list" where
  "predicates obj =
     [first_name (user obj) \<noteq> [],
      last_name (user obj) \<noteq> [],
      phone_number (user obj) \<noteq> [] \<and> is_phone_verified obj,
      home_address obj \<noteq> [],
      emergency_contact_name obj \<noteq> [],
      emergency_contact_phone obj \<noteq> []]"

definition countTrue :: "bool list \<Rightarrow> nat" where
  "countTrue ps = length (filter (\<lambda>b. b) ps)"

definition spec_percentage :: "Passenger \<Rightarrow> int" where
  "spec_percentage obj = \<lfloor>(of_nat (countTrue (predicates obj)) / 6 * 100 :: rat)\<rfloor>"

section \<open>Completion flag\<close>

text \<open>Python's \<open>all\<close> on a list of booleans: false at the first false element.\<close>

fun py_all :: "bool list \<Rightarrow> bool" where
  "py_all [] = True"
| "py_all (b # bs) = (if b then py_all bs else False)"

text \<open>\<open>PassengerCreateSerializer._calculate_profile_completion\<close> (users/serializers.py).\<close>

definition calculate_profile_completion :: "Passenger \<Rightarrow> bool" where
  "calculate_profile_completion passenger =
     (let required_fields =
            [first_name (user passenger) \<noteq> [],
             last_name (user passenger) \<noteq> [],
             home_address passenger \<noteq> [],
             emergency_contact_name passenger \<noteq> [],
             emergency_contact_phone passenger \<noteq> [],
             is_phone_verified passenger]
      in py_all required_fields)"

text \<open>
  The specification's wording of the flag: five fields non-empty and the phone verified.
\<close>

definition spec_isComplete :: "Passenger \<Rightarrow> bool" where
  "spec_isComplete obj =
     (first_name (user obj) \<noteq> [] \<and> last_name (user obj) \<noteq> [] \<and> home_address obj \<noteq> []
      \<and> emergency_contact_name obj \<noteq> [] \<and> emergency_contact_phone obj \<noteq> []
      \<and> is_phone_verified obj)"

section \<open>Validation (users/serializers.py)\<close>

text \<open>
  The serializers raise \<open>serializers.ValidationError\<close>, with a message or with a
  dictionary from field names to messages.  \<open>IntegrityError\<close> and \<open>DatabaseError\<close> are
  what the ORM raises on a duplicate primary key and on an update that matches no row.
\<close>

datatype detail = Message string | FieldErrors "(string \<times> string) list"

datatype error = ValidationError detail | IntegrityError | DatabaseError

text \<open>The values of a data dictionary: strings and booleans.\<close>

datatype val = Str string | Bool bool

text \<open>Truthiness of \<open>data.get(key)\<close>: \<open>None\<close> for a missing key.\<close>

definition truthy :: "val option \<Rightarrow> bool" where
  "truthy v = (case v of None \<Rightarrow> False | Some (Str s) \<Rightarrow> s \<noteq> [] | Some (Bool b) \<Rightarrow> b)"

definition startswith :: "string \<Rightarrow> string \<Rightarrow> bool" where
  "startswith s p = (take (length p) s = p)"

definition validate_emergency_contact_phone :: "string \<Rightarrow> error + string" where
  "validate_emergency_contact_phone v =
     (if v \<noteq> [] \<and> \<not> startswith v ''+''
      then Inl (ValidationError (Message ''Emergency contact phone must start with '+'.''))
      else Inr v)"

definition validate :: "(string \<rightharpoonup> val) \<Rightarrow> error + (string \<rightharpoonup> val)" where
  "validate data =
     (let emergency_name = data ''emergency_contact_name'';
          emergency_phone = data ''emergency_contact_phone''
      in if truthy emergency_name \<and> \<not> truthy emergency_phone
         then Inl (ValidationError (FieldErrors
                [(''emergency_contact_phone'',
                  ''Phone number is required when emergency contact name is provided.'')]))
         else Inr data)"

text \<open>
  \<open>PassengerCreateSerializer\<close>, the serializer of a POST, declares neither
  \<open>validate_emergency_contact_phone\<close> nor \<open>validate\<close>.  The only checks its fields carry
  are those of the model columns (users/models.py): for \<open>emergency_contact_phone\<close> a
  maximal length of 15 and \<open>RegexValidator(r'^\+?1?\d{9,15}$')\<close>, searched in the value.
  The pattern, read from the right: between 9 and 15 digits up to the end of the string
  (\<open>$\<close> also matches before one final newline), an optional \<open>1\<close> before them, an
  optional \<open>+\<close> before that.
\<close>

definition isdigit :: "char \<Rightarrow> bool" where
  "isdigit c = (let n = (of_char c :: nat) in 48 \<le> n \<and> n \<le> 57)"

definition digits_to_end :: "string \<Rightarrow> bool" where
  "digits_to_end s =
     (let ds = takeWhile isdigit s; rest = dropWhile isdigit s
      in 9 \<le> length ds \<and> length ds \<le> 15 \<and> (rest = [] \<or> rest = [CHR 0x0A]))"

definition optional_one :: "string \<Rightarrow> bool" where
  "optional_one s =
     ((case s of [] \<Rightarrow> False | c # cs \<Rightarrow> c = CHR ''1'' \<and> digits_to_end cs)
      \<or> digits_to_end s)"

definition phone_regex :: "string \<Rightarrow> bool" where
  "phone_regex s =
     ((case s of [] \<Rightarrow> False | c # cs \<Rightarrow> c = CHR ''+'' \<and> optional_one cs)
      \<or> optional_one s)"

section \<open>Full name (users/serializers.py)\<close>

text \<open>
  \<open>str.strip()\<close> removes leading and trailing whitespace.  A string is a list of 8-bit
  characters; \<open>isspace\<close> is Python's whitespace test on the code points below 256.
\<close>

definition isspace :: "char \<Rightarrow> bool" where
  "isspace c = (let n = (of_char c :: nat)
                in (9 \<le> n \<and> n \<le> 13) \<or> (28 \<le> n \<and> n \<le> 32) \<or> n = 133 \<or> n = 160)"

definition strip :: "string \<Rightarrow> string" where
  "strip s = rev (dropWhile isspace (rev (dropWhile isspace s)))"

text \<open>\<open>s.split(sep)\<close> for a one-character separator; the result is never empty.\<close>

fun split_str :: "string \<Rightarrow> char \<Rightarrow> string list" where
  "split_str [] sep = [[]]"
| "split_str (c # cs) sep =
     (if c = sep then [] # split_str cs sep
      else (case split_str cs sep of [] \<Rightarrow> [[c]] | w # ws \<Rightarrow> (c # w) # ws))"

definition get_full_name :: "Passenger \<Rightarrow> string" where
  "get_full_name obj =
     (if first_name (user obj) \<noteq> [] \<and> last_name (user obj) \<noteq> []
      then strip (first_name (user obj) @ '' '' @ last_name (user obj))
      else hd (split_str (email (user obj)) (CHR ''@'')))"

section \<open>Create and update\<close>

text \<open>
  The table \<open>passengers\<close>, keyed by the primary key of the owning user, each row with its
  user joined.  No operation below writes a \<open>User\<close>.
\<close>

type_synonym db = "nat \<rightharpoonup> Passenger"

definition str_kwarg :: "(string \<rightharpoonup> val) \<Rightarrow> string \<Rightarrow> string \<Rightarrow> string" where
  "str_kwarg kwargs key dflt = (case kwargs key of Some (Str s) \<Rightarrow> s | _ \<Rightarrow> dflt)"

definition bool_kwarg :: "(string \<rightharpoonup> val) \<Rightarrow> string \<Rightarrow> bool \<Rightarrow> bool" where
  "bool_kwarg kwargs key dflt = (case kwargs key of Some (Bool b) \<Rightarrow> b | _ \<Rightarrow> dflt)"

text \<open>
  \<open>Passenger.objects.create(user=user, **validated_data)\<close>: the model's defaults, the
  given columns, and an insert that fails on an existing primary key.  Validated data
  hold strings for the string columns and booleans for the boolean columns; the
  serializers never pass \<open>average_rating\<close> or \<open>total_rides\<close>, which are read-only or
  undeclared there.
\<close>

definition objects_create :: "User \<Rightarrow> (string \<rightharpoonup> val) \<Rightarrow> db \<Rightarrow> (error + Passenger) \<times> db" where
  "objects_create u kwargs d =
     (let passenger =
            \<lparr>user = u,
             home_address = str_kwarg kwargs ''home_address'' [],
             work_address = str_kwarg kwargs ''work_address'' [],
             emergency_contact_name = str_kwarg kwargs ''emergency_contact_name'' [],
             emergency_contact_phone = str_kwarg kwargs ''emergency_contact_phone'' [],
             preferred_payment_method = str_kwarg kwargs ''preferred_payment_method'' ''card'',
             preferred_car_type = str_kwarg kwargs ''preferred_car_type'' ''economy'',
             average_rating = 5,
             total_rides = 0,
             is_phone_verified = bool_kwarg kwargs ''is_phone_verified'' False,
             is_profile_complete = bool_kwarg kwargs ''is_profile_complete'' False\<rparr>
      in if d (pk u) \<noteq> None then (Inl IntegrityError, d)
         else (Inr passenger, d(pk u \<mapsto> passenger)))"

text \<open>\<open>passenger.save()\<close> writes every column of the row.\<close>

definition save :: "Passenger \<Rightarrow> db \<Rightarrow> db" where
  "save passenger d = d(pk (user passenger) \<mapsto> passenger)"

text \<open>\<open>passenger.save(update_fields=['is_profile_complete'])\<close> writes that column only.\<close>

definition save_is_profile_complete :: "Passenger \<Rightarrow> db \<Rightarrow> (error + unit) \<times> db" where
  "save_is_profile_complete passenger d =
     (case d (pk (user passenger)) of
        None \<Rightarrow> (Inl DatabaseError, d)
      | Some row \<Rightarrow>
          (Inr (),
           d(pk (user passenger) \<mapsto> row\<lparr>is_profile_complete := is_profile_complete passenger\<rparr>)))"

text \<open>\<open>PassengerCreateSerializer.create\<close>, with \<open>self.context['request'].user\<close> as \<open>u\<close>.\<close>

definition create :: "User \<Rightarrow> (string \<rightharpoonup> val) \<Rightarrow> db \<Rightarrow> (error + Passenger) \<times> db" where
  "create u validated_data d =
     (if user_type u \<noteq> ''passenger''
      then (Inl (ValidationError (Message
              ''Only users with type 'passenger' can create passenger profiles.'')), d)
      else (case objects_create u validated_data d of
              (Inl e, d1) \<Rightarrow> (Inl e, d1)
            | (Inr passenger, d1) \<Rightarrow>
                let passenger =
                      passenger\<lparr>is_profile_complete := calculate_profile_completion passenger\<rparr>
                in (Inr passenger, save passenger d1)))"

text \<open>
  \<open>serializer.save()\<close> of a \<open>PassengerSerializer\<close> bound to an existing row: every
  validated column that the serializer declares writable is set on the object, which is
  then saved.
\<close>

definition serializer_save :: "Passenger \<Rightarrow> (string \<rightharpoonup> val) \<Rightarrow> db \<Rightarrow> Passenger \<times> db" where
  "serializer_save inst validated_data d =
     (let passenger =
            inst\<lparr>home_address := str_kwarg validated_data ''home_address'' (home_address inst),
                 work_address := str_kwarg validated_data ''work_address'' (work_address inst),
                 emergency_contact_name :=
                   str_kwarg validated_data ''emergency_contact_name''
                     (emergency_contact_name inst),
                 emergency_contact_phone :=
                   str_kwarg validated_data ''emergency_contact_phone''
                     (emergency_contact_phone inst),
                 preferred_payment_method :=
                   str_kwarg validated_data ''preferred_payment_method''
                     (preferred_payment_method inst),
                 preferred_car_type :=
                   str_kwarg validated_data ''preferred_car_type'' (preferred_car_type inst),
                 is_phone_verified :=
                   bool_kwarg validated_data ''is_phone_verified'' (is_phone_verified inst),
                 is_profile_complete :=
                   bool_kwarg validated_data ''is_profile_complete'' (is_profile_complete inst)\<rparr>
      in (passenger, save passenger d))"

text \<open>\<open>PassengerDetailView.perform_update\<close> (users/views.py).\<close>

definition perform_update :: "Passenger \<Rightarrow> (string \<rightharpoonup> val) \<Rightarrow> db \<Rightarrow> (error + unit) \<times> db" where
  "perform_update inst validated_data d =
     (case serializer_save inst validated_data d of
        (passenger, d1) \<Rightarrow>
          let completion_fields =
                [first_name (user passenger) \<noteq> [],
                 last_name (user passenger) \<noteq> [],
                 home_address passenger \<noteq> [],
                 emergency_contact_name passenger \<noteq> [],
                 emergency_contact_phone passenger \<noteq> [],
                 is_phone_verified passenger];
              passenger = passenger\<lparr>is_profile_complete := py_all completion_fields\<rparr>
          in save_is_profile_complete passenger d1)"

section \<open>Example objects\<close>

definition ada :: User where
  "ada = \<lparr>pk = 1, email = ''ada@example.com'', user_type = ''passenger'',
           phone_number = ''+15551234567'', first_name = ''Ada'', last_name = ''Lovelace'',
           is_staff = False, is_active = True\<rparr>"

definition bob :: User where
  "bob = \<lparr>pk = 2, email = ''bob@example.com'', user_type = ''rider'',
           phone_number = ''+15557654321'', first_name = ''Bob'', last_name = [],
           is_staff = False, is_active = True\<rparr>"

definition ada_profile :: Passenger where
  "ada_profile =
     \<lparr>user = ada, home_address = ''1 Main St'', work_address = [],
      emergency_contact_name = ''Jane'', emergency_contact_phone = ''+1234567890'',
      preferred_payment_method = ''card'', preferred_car_type = ''economy'',
      average_rating = 5, total_rides = 0,
      is_phone_verified = True, is_profile_complete = False\<rparr>"

definition bob_profile :: Passenger where
  "bob_profile = ada_profile\<lparr>user := bob\<rparr>"

text \<open>Ada's row as \<open>create\<close> writes it, and after her phone has been verified.\<close>

definition ada_created :: Passenger where
  "ada_created = ada_profile\<lparr>is_phone_verified := False\<rparr>"

definition ada_verified :: Passenger where
  "ada_verified = ada_profile\<lparr>is_profile_complete := True\<rparr>"

text \<open>Ada with no phone number, and Ada whose last name ends with a space.\<close>

definition ada_no_phone :: Passenger where
  "ada_no_phone = ada_profile\<lparr>user := ada\<lparr>phone_number := []\<rparr>\<rparr>"

definition ada_padded :: Passenger where
  "ada_padded = ada_profile\<lparr>user := ada\<lparr>last_name := ''Lovelace ''\<rparr>\<rparr>"

definition contact_fields :: "string \<rightharpoonup> val" where
  "contact_fields =
     [''home_address'' \<mapsto> Str ''1 Main St'',
      ''emergency_contact_name'' \<mapsto> Str ''Jane'',
      ''emergency_contact_phone'' \<mapsto> Str ''+1234567890'']"

definition verified_update :: "string \<rightharpoonup> val" where
  "verified_update = [''is_phone_verified'' \<mapsto> Bool True, ''is_profile_complete'' \<mapsto> Bool False]"

text \<open>
  Two bodies of a POST, and the rows that \<open>create\<close> writes for them: a phone without
  \<open>+\<close>, and an emergency contact name with an empty phone.
\<close>

definition phone_without_plus :: "string \<rightharpoonup> val" where
  "phone_without_plus = [''emergency_contact_phone'' \<mapsto> Str ''0700123456'']"

definition ada_plain_phone :: Passenger where
  "ada_plain_phone =
     \<lparr>user = ada, home_address = [], work_address = [],
      emergency_contact_name = [], emergency_contact_phone = ''0700123456'',
      preferred_payment_method = ''card'', preferred_car_type = ''economy'',
      average_rating = 5, total_rides = 0,
      is_phone_verified = False, is_profile_complete = False\<rparr>"

definition ada_name_only :: Passenger where
  "ada_name_only =
     \<lparr>user = ada, home_address = [], work_address = [],
      emergency_contact_name = ''Jane'', emergency_contact_phone = [],
      preferred_payment_method = ''card'', preferred_car_type = ''economy'',
      average_rating = 5, total_rides = 0,
      is_phone_verified = False, is_profile_complete = False\<rparr>"

definition name_without_phone :: "string \<rightharpoonup> val" where
  "name_without_phone =
     [''emergency_contact_name'' \<mapsto> Str ''Jane'', ''emergency_contact_phone'' \<mapsto> Str []]"

definition both_empty :: "string \<rightharpoonup> val" where
  "both_empty =
     [''emergency_contact_name'' \<mapsto> Str [], ''emergency_contact_phone'' \<mapsto> Str []]"

section \<open>Properties of the percentage\<close>

lemma percentage_of_0: "py_int (fmul (truediv 0 6) 100) = 0"
  by code_simp

lemma percentage_of_1: "py_int (fmul (truediv 1 6) 100) = 16"
  by code_simp

lemma percentage_of_2: "py_int (fmul (truediv 2 6) 100) = 33"
  by code_simp

lemma percentage_of_3: "py_int (fmul (truediv 3 6) 100) = 50"
  by code_simp

lemma percentage_of_4: "py_int (fmul (truediv 4 6) 100) = 66"
  by code_simp

lemma percentage_of_5: "py_int (fmul (truediv 5 6) 100) = 83"
  by code_simp

lemma percentage_of_6: "py_int (fmul (truediv 6 6) 100) = 100"
  by code_simp

text \<open>
  The rounding is that of binary64: \<open>1 / 10\<close> becomes the double nearest to it, and
  \<open>int(0.29 * 100)\<close> is 28 as in Python, not 29.
\<close>

lemma fl_one_tenth: "fl (1 / 10) = 3602879701896397 / 36028797018963968"
  by code_simp

lemma fl_exact: "fl (1 / 2) = 1 / 2" "fl 100 = 100" "fl 0 = 0"
  by code_simp+

lemma float_truncation_example: "py_int (fmul (fl (29 / 100)) 100) = 28"
  by code_simp

lemmas percentage_table =
  percentage_of_0 percentage_of_1 percentage_of_2 percentage_of_3
  percentage_of_4 percentage_of_5 percentage_of_6

lemma floor_table:
  "\<lfloor>(0 / 6 * 100 :: rat)\<rfloor> = 0" "\<lfloor>(1 / 6 * 100 :: rat)\<rfloor> = 16"
  "\<lfloor>(2 / 6 * 100 :: rat)\<rfloor> = 33" "\<lfloor>(3 / 6 * 100 :: rat)\<rfloor> = 50"
  "\<lfloor>(4 / 6 * 100 :: rat)\<rfloor> = 66" "\<lfloor>(5 / 6 * 100 :: rat)\<rfloor> = 83"
  "\<lfloor>(6 / 6 * 100 :: rat)\<rfloor> = 100"
  by code_simp+

text \<open>The float computation and the exact floor agree on every possible count.\<close>

lemma float_percentage_is_floor:
  assumes "k \<le> 6"
  shows "py_int (fmul (truediv (int k) 6) 100) = \<lfloor>(of_nat k / 6 * 100 :: rat)\<rfloor>"
proof -
  from assms have "k = 0 \<or> k = 1 \<or> k = 2 \<or> k = 3 \<or> k = 4 \<or> k = 5 \<or> k = 6"
    by arith
  then show ?thesis
    using percentage_table floor_table by auto
qed

lemma floor_percentage_values:
  assumes "k \<le> 6"
  shows "\<lfloor>(of_nat k / 6 * 100 :: rat)\<rfloor> \<in> {0, 16, 33, 50, 66, 83, 100}"
proof -
  from assms have "k = 0 \<or> k = 1 \<or> k = 2 \<or> k = 3 \<or> k = 4 \<or> k = 5 \<or> k = 6"
    by arith
  then show ?thesis
    using floor_table by auto
qed

lemma countTrue_predicates_le: "countTrue (predicates obj) \<le> 6"
proof -
  have "countTrue (predicates obj) \<le> length (predicates obj)"
    unfolding countTrue_def by (rule length_filter_le)
  then show ?thesis by (simp add: predicates_def)
qed

lemma serializer_percentage_count:
  "get_profile_completion_percentage obj =
     py_int (fmul (truediv (int (countTrue (predicates obj))) 6) 100)"
  by (simp add: get_profile_completion_percentage_def predicates_def countTrue_def Let_def)

lemma stats_percentage_count:
  "calculate_completion_percentage obj =
     py_int (fmul (truediv (int (countTrue (predicates obj))) 6) 100)"
  by (simp add: calculate_completion_percentage_def predicates_def countTrue_def Let_def)

lemma serializer_percentage_spec: "get_profile_completion_percentage obj = spec_percentage obj"
  unfolding serializer_percentage_count spec_percentage_def
  by (rule float_percentage_is_floor) (rule countTrue_predicates_le)

lemma stats_percentage_spec: "calculate_completion_percentage obj = spec_percentage obj"
  unfolding stats_percentage_count spec_percentage_def
  by (rule float_percentage_is_floor) (rule countTrue_predicates_le)

lemma spec_percentage_values: "spec_percentage obj \<in> {0, 16, 33, 50, 66, 83, 100}"
  unfolding spec_percentage_def
  by (rule floor_percentage_values) (rule countTrue_predicates_le)

text \<open>
  Claim C1. For every passenger object, both implementations of the completion
  percentage return the floor of (number of true presence predicates) / 6 * 100, the
  result lies between 0 and 100, and it is one of 0, 16, 33, 50, 66, 83, 100.
\<close>

theorem completion_percentage_is_floor:
  "get_profile_completion_percentage obj = spec_percentage obj
   \<and> calculate_completion_percentage obj = spec_percentage obj
   \<and> 0 \<le> get_profile_completion_percentage obj
   \<and> get_profile_completion_percentage obj \<le> 100
   \<and> get_profile_completion_percentage obj \<in> {0, 16, 33, 50, 66, 83, 100}"
proof -
  have v: "spec_percentage obj \<in> {0, 16, 33, 50, 66, 83, 100}"
    by (rule spec_percentage_values)
  then have "0 \<le> spec_percentage obj \<and> spec_percentage obj \<le> 100"
    by auto
  with v show ?thesis
    by (simp only: serializer_percentage_spec stats_percentage_spec simp_thms)
qed

text \<open>
  Claim C4. The percentage of the serializer and the percentage of the statistics view
  are equal on every passenger object.
\<close>

theorem percentage_implementations_agree:
  "get_profile_completion_percentage obj = calculate_completion_percentage obj"
  by (simp only: serializer_percentage_count stats_percentage_count)

section \<open>Helper lemmas on the flag and the table\<close>

lemma calculate_profile_completion_spec:
  "calculate_profile_completion obj = spec_isComplete obj"
  by (simp add: calculate_profile_completion_def spec_isComplete_def)

lemma serializer_save_user: "user (fst (serializer_save inst vd d)) = user inst"
  by (simp add: serializer_save_def Let_def)

lemma serializer_save_db:
  "snd (serializer_save inst vd d) = d(pk (user inst) \<mapsto> fst (serializer_save inst vd d))"
  by (simp add: serializer_save_def Let_def save_def)

lemma perform_update_result:
  "perform_update inst vd d =
     (Inr (), d(pk (user inst) \<mapsto>
        (fst (serializer_save inst vd d))
          \<lparr>is_profile_complete := spec_isComplete (fst (serializer_save inst vd d))\<rparr>))"
proof -
  obtain p d1 where s: "serializer_save inst vd d = (p, d1)"
    by (cases "serializer_save inst vd d")
  from s have u: "user p = user inst"
    using serializer_save_user [of inst vd d] by simp
  from s have d1: "d1 = d(pk (user inst) \<mapsto> p)"
    using serializer_save_db [of inst vd d] by simp
  show ?thesis
    by (simp add: perform_update_def s Let_def save_is_profile_complete_def u d1
        spec_isComplete_def)
qed

section \<open>Properties of the completion flag\<close>

text \<open>
  Claim C2. For every passenger object, the completion flag computed at creation, and the
  flag stored by an update, is true exactly when first name, last name, home address,
  emergency contact name and emergency contact phone are non-empty and the phone is
  verified; whether a phone number is present is not checked: replacing the phone number
  by any string \<open>ph\<close> leaves the flag as it is.
\<close>

theorem is_complete_rule:
  "calculate_profile_completion obj = spec_isComplete obj
   \<and> (case snd (perform_update obj vd d) (pk (user obj)) of
         None \<Rightarrow> False
       | Some p \<Rightarrow> is_profile_complete p = spec_isComplete p)
   \<and> calculate_profile_completion (obj\<lparr>user := (user obj)\<lparr>phone_number := ph\<rparr>\<rparr>)
       = calculate_profile_completion obj"
  by (simp add: calculate_profile_completion_spec perform_update_result)
    (simp add: spec_isComplete_def)


text \<open>
  Claim C3. Two passenger objects that agree on first name, last name, home address,
  emergency contact name, emergency contact phone and the verified flag get the same
  completion flag, at creation and from an update with the same data, whatever their
  phone numbers are.
\<close>

theorem is_complete_ignores_phone_number:
  assumes "first_name (user a) = first_name (user b)"
    and "last_name (user a) = last_name (user b)"
    and "home_address a = home_address b"
    and "emergency_contact_name a = emergency_contact_name b"
    and "emergency_contact_phone a = emergency_contact_phone b"
    and "is_phone_verified a = is_phone_verified b"
  shows "calculate_profile_completion a = calculate_profile_completion b
    \<and> map_option is_profile_complete (snd (perform_update a vd da) (pk (user a)))
      = map_option is_profile_complete (snd (perform_update b vd db) (pk (user b)))"
proof -
  have "spec_isComplete a = spec_isComplete b"
    using assms by (simp add: spec_isComplete_def)
  moreover have "spec_isComplete (fst (serializer_save a vd da))
      = spec_isComplete (fst (serializer_save b vd db))"
    using assms by (simp add: spec_isComplete_def serializer_save_def Let_def)
  ultimately show ?thesis
    by (simp add: calculate_profile_completion_spec perform_update_result)
qed

theorem is_complete_ignores_phone_number_witness:
  "phone_number (user ada_profile) \<noteq> phone_number (user ada_no_phone)
   \<and> calculate_profile_completion ada_profile = calculate_profile_completion ada_no_phone
   \<and> calculate_profile_completion ada_profile
   \<and> map_option is_profile_complete
        (snd (perform_update ada_profile verified_update Map.empty) (pk (user ada_profile)))
      = map_option is_profile_complete
        (snd (perform_update ada_no_phone verified_update Map.empty) (pk (user ada_no_phone)))"
  using is_complete_ignores_phone_number
    [of ada_profile ada_no_phone verified_update Map.empty Map.empty]
  by (simp add: ada_profile_def ada_no_phone_def ada_def calculate_profile_completion_def)


lemma create_not_passenger:
  "user_type u \<noteq> ''passenger'' \<Longrightarrow>
   create u vd d =
     (Inl (ValidationError (Message
        ''Only users with type 'passenger' can create passenger profiles.'')), d)"
  by (simp add: create_def)

lemma create_duplicate:
  "user_type u = ''passenger'' \<Longrightarrow> d (pk u) \<noteq> None \<Longrightarrow>
   create u vd d = (Inl IntegrityError, d)"
  by (simp add: create_def objects_create_def Let_def)

lemma spec_isComplete_flag_update [simp]:
  "spec_isComplete (p\<lparr>is_profile_complete := b\<rparr>) = spec_isComplete p"
  by (simp add: spec_isComplete_def)

lemma objects_create_fresh:
  "d (pk u) = None \<Longrightarrow>
   \<exists>p0. objects_create u vd d = (Inr p0, d(pk u \<mapsto> p0)) \<and> user p0 = u"
  by (simp add: objects_create_def Let_def)

lemma create_success:
  assumes "user_type u = ''passenger''" and "d (pk u) = None"
  shows "\<exists>p. create u vd d = (Inr p, d(pk u \<mapsto> p)) \<and> user p = u
           \<and> is_profile_complete p = spec_isComplete p"
proof -
  from objects_create_fresh [of d u vd] assms(2)
  obtain p0 where o: "objects_create u vd d = (Inr p0, d(pk u \<mapsto> p0))" and u: "user p0 = u"
    by blast
  let ?p = "p0\<lparr>is_profile_complete := calculate_profile_completion p0\<rparr>"
  have "create u vd d = (Inr ?p, d(pk u \<mapsto> ?p))"
    by (simp add: create_def assms(1) o Let_def save_def u)
  moreover have "user ?p = u" by (simp add: u)
  moreover have "is_profile_complete ?p = spec_isComplete ?p"
    by (simp add: calculate_profile_completion_spec)
  ultimately show ?thesis by blast
qed

lemma create_cases:
  assumes "create u vd d = (r, d')"
  shows "(\<exists>e. r = Inl e \<and> d' = d)
   \<or> (\<exists>p. r = Inr p \<and> d' = d(pk u \<mapsto> p) \<and> user p = u
         \<and> is_profile_complete p = spec_isComplete p)"
proof (cases "user_type u = ''passenger''")
  case False
  with assms show ?thesis by (auto simp add: create_not_passenger)
next
  case True
  show ?thesis
  proof (cases "d (pk u) = None")
    case False
    with True assms show ?thesis by (auto simp add: create_duplicate)
  next
    case n: True
    from create_success [of u d vd] True n assms show ?thesis by auto
  qed
qed

text \<open>
  Claim C5. After a successful create, the row stored for the user is the returned
  passenger and its \<open>is_profile_complete\<close> equals the completion rule on its own
  fields; a failed create leaves the table as it was; an update always succeeds on the
  row it was given and leaves a row whose \<open>is_profile_complete\<close> equals the completion
  rule on its own fields.
\<close>

theorem stored_flag_consistent:
  "(create u vd d = (Inr p, d') \<longrightarrow>
      d' (pk u) = Some p \<and> is_profile_complete p = spec_isComplete p)
   \<and> (create u vd d = (Inl e, d') \<longrightarrow> d' = d)
   \<and> (perform_update inst vd d = (r, d') \<longrightarrow>
      r = Inr () \<and> (\<exists>q. d' (pk (user inst)) = Some q
                     \<and> is_profile_complete q = spec_isComplete q))"
proof (intro conjI impI)
  assume c: "create u vd d = (Inr p, d')"
  from create_cases [OF c]
  show "d' (pk u) = Some p" by auto
  from create_cases [OF c]
  show "is_profile_complete p = spec_isComplete p"
    by auto
next
  assume c: "create u vd d = (Inl e, d')"
  from create_cases [OF c] show "d' = d" by auto
next
  assume "perform_update inst vd d = (r, d')"
  then show "r = Inr ()" by (simp add: perform_update_result)
next
  assume "perform_update inst vd d = (r, d')"
  then have "d' = d(pk (user inst) \<mapsto>
        (fst (serializer_save inst vd d))
          \<lparr>is_profile_complete := spec_isComplete (fst (serializer_save inst vd d))\<rparr>)"
    by (simp add: perform_update_result)
  then show "\<exists>q. d' (pk (user inst)) = Some q \<and> is_profile_complete q = spec_isComplete q"
    by (simp add: spec_isComplete_def)
qed


theorem stored_flag_consistent_witness:
  "create ada contact_fields Map.empty = (Inr ada_created, [pk ada \<mapsto> ada_created])
   \<and> [pk ada \<mapsto> ada_created] (pk ada) = Some ada_created
   \<and> is_profile_complete ada_created = spec_isComplete ada_created
   \<and> create bob contact_fields Map.empty =
       (Inl (ValidationError (Message
          ''Only users with type 'passenger' can create passenger profiles.'')), Map.empty)
   \<and> perform_update ada_created verified_update [pk ada \<mapsto> ada_created]
       = (Inr (), [pk ada \<mapsto> ada_verified])
   \<and> is_profile_complete ada_verified \<and> spec_isComplete ada_verified"
proof -
  have a: "create ada contact_fields Map.empty = (Inr ada_created, [pk ada \<mapsto> ada_created])"
    by (simp add: create_def objects_create_def Let_def save_def ada_created_def
        ada_profile_def ada_def contact_fields_def str_kwarg_def bool_kwarg_def
        calculate_profile_completion_def)
  have b: "create bob contact_fields Map.empty =
      (Inl (ValidationError (Message
         ''Only users with type 'passenger' can create passenger profiles.'')), Map.empty)"
    by (simp add: create_def bob_def)
  have c: "perform_update ada_created verified_update [pk ada \<mapsto> ada_created]
      = (Inr (), [pk ada \<mapsto> ada_verified])"
    by (simp add: perform_update_def serializer_save_def Let_def save_def
        save_is_profile_complete_def ada_created_def ada_verified_def ada_profile_def
        ada_def verified_update_def str_kwarg_def bool_kwarg_def)
  have u: "user ada_created = ada"
    by (simp add: ada_created_def ada_profile_def)
  have v: "is_profile_complete ada_verified"
    by (simp add: ada_verified_def)
  from a stored_flag_consistent [of ada contact_fields Map.empty ada_created
      "[pk ada \<mapsto> ada_created]"]
  have 1: "[pk ada \<mapsto> ada_created] (pk ada) = Some ada_created
      \<and> is_profile_complete ada_created = spec_isComplete ada_created"
    by blast
  from c u stored_flag_consistent [of _ verified_update "[pk ada \<mapsto> ada_created]" _
      "[pk ada \<mapsto> ada_verified]" _ ada_created "Inr ()"]
  have "\<exists>q. [pk ada \<mapsto> ada_verified] (pk ada) = Some q
      \<and> is_profile_complete q = spec_isComplete q"
    by simp
  with v have 2: "spec_isComplete ada_verified" by simp
  from b stored_flag_consistent [of bob contact_fields Map.empty _ Map.empty]
  have 3: "snd (create bob contact_fields Map.empty) = Map.empty"
    by simp
  from a b c 1 2 3 v show ?thesis by simp
qed

lemma full_percentage_count:
  assumes "k \<le> 6" and "py_int (fmul (truediv (int k) 6) 100) = 100"
  shows "k = 6"
proof -
  from assms(1) have "k = 0 \<or> k = 1 \<or> k = 2 \<or> k = 3 \<or> k = 4 \<or> k = 5 \<or> k = 6"
    by arith
  with assms(2) show ?thesis
    using percentage_table by auto
qed

lemma py_all_iff: "py_all bs = (\<forall>b \<in> set bs. b)"
  by (induction bs) auto

lemma countTrue_full:
  assumes "countTrue bs = length bs"
  shows "py_all bs"
proof (rule ccontr)
  assume "\<not> py_all bs"
  then obtain b where "b \<in> set bs" and "\<not> b"
    by (auto simp add: py_all_iff)
  then have "length (filter (\<lambda>b. b) bs) < length bs"
    by (rule length_filter_less)
  with assms show False by (simp add: countTrue_def)
qed

text \<open>
  Claim C9. A percentage of 100 implies that the completion flag is true.  The converse
  fails: with an empty phone number, the five other fields set and the phone verified,
  the flag is true and the percentage is 83.
\<close>

theorem full_percentage_implies_complete:
  "(get_profile_completion_percentage obj = 100 \<longrightarrow> calculate_profile_completion obj)
   \<and> (phone_number (user obj) = [] \<and> first_name (user obj) \<noteq> []
      \<and> last_name (user obj) \<noteq> [] \<and> home_address obj \<noteq> []
      \<and> emergency_contact_name obj \<noteq> [] \<and> emergency_contact_phone obj \<noteq> []
      \<and> is_phone_verified obj
      \<longrightarrow> calculate_profile_completion obj \<and> get_profile_completion_percentage obj = 83)"
proof (intro conjI impI)
  assume "get_profile_completion_percentage obj = 100"
  then have "py_int (fmul (truediv (int (countTrue (predicates obj))) 6) 100) = 100"
    by (simp only: serializer_percentage_count)
  with countTrue_predicates_le have "countTrue (predicates obj) = 6"
    by (rule full_percentage_count)
  then have "countTrue (predicates obj) = length (predicates obj)"
    by (simp add: predicates_def)
  then have "py_all (predicates obj)"
    by (rule countTrue_full)
  then show "calculate_profile_completion obj"
    by (simp add: predicates_def calculate_profile_completion_def py_all_iff)
next
  assume a: "phone_number (user obj) = [] \<and> first_name (user obj) \<noteq> []
      \<and> last_name (user obj) \<noteq> [] \<and> home_address obj \<noteq> []
      \<and> emergency_contact_name obj \<noteq> [] \<and> emergency_contact_phone obj \<noteq> []
      \<and> is_phone_verified obj"
  then show "calculate_profile_completion obj"
    by (simp add: calculate_profile_completion_def)
  from a have "countTrue (predicates obj) = 5"
    by (simp add: predicates_def countTrue_def)
  then show "get_profile_completion_percentage obj = 83"
    by (simp add: serializer_percentage_count percentage_of_5)
qed

theorem full_percentage_implies_complete_witness:
  "get_profile_completion_percentage ada_profile = 100
   \<and> calculate_profile_completion ada_profile
   \<and> phone_number (user ada_no_phone) = []
   \<and> calculate_profile_completion ada_no_phone
   \<and> get_profile_completion_percentage ada_no_phone = 83"
proof -
  have "countTrue (predicates ada_profile) = 6"
    by (simp add: predicates_def countTrue_def ada_profile_def ada_def)
  then have h: "get_profile_completion_percentage ada_profile = 100"
    by (simp add: serializer_percentage_count percentage_of_6)
  have n: "phone_number (user ada_no_phone) = [] \<and> first_name (user ada_no_phone) \<noteq> []
      \<and> last_name (user ada_no_phone) \<noteq> [] \<and> home_address ada_no_phone \<noteq> []
      \<and> emergency_contact_name ada_no_phone \<noteq> []
      \<and> emergency_contact_phone ada_no_phone \<noteq> []
      \<and> is_phone_verified ada_no_phone"
    by (simp add: ada_no_phone_def ada_profile_def ada_def)
  from h n full_percentage_implies_complete [of ada_profile]
    full_percentage_implies_complete [of ada_no_phone]
  show ?thesis by blast
qed

section \<open>Properties of the validation rules\<close>

text \<open>
  The format rule as \<open>PassengerSerializer\<close>, the serializer of an update, has it: every
  non-empty emergency contact phone that does not start with \<open>+\<close> is rejected;
  \<open>1234567\<close> is rejected and \<open>+1234567890\<close> is accepted.
\<close>

lemma update_phone_format_rule:
  "(v \<noteq> [] \<and> hd v \<noteq> CHR ''+'' \<longrightarrow>
      validate_emergency_contact_phone v =
        Inl (ValidationError (Message ''Emergency contact phone must start with '+'.'')))
   \<and> validate_emergency_contact_phone ''1234567'' =
        Inl (ValidationError (Message ''Emergency contact phone must start with '+'.''))
   \<and> validate_emergency_contact_phone ''+1234567890'' = Inr ''+1234567890''"
  by (cases v) (simp_all add: validate_emergency_contact_phone_def startswith_def)

text \<open>
  The cross-field rule as \<open>PassengerSerializer\<close> has it: a non-empty emergency contact
  name with a missing or empty emergency contact phone is rejected with an error on
  \<open>emergency_contact_phone\<close>; data whose emergency contact name is missing or empty pass.
\<close>

lemma update_contact_name_requires_phone:
  "(data ''emergency_contact_name'' = Some (Str n) \<and> n \<noteq> []
      \<and> (data ''emergency_contact_phone'' = None
           \<or> data ''emergency_contact_phone'' = Some (Str []))
      \<longrightarrow> validate data =
            Inl (ValidationError (FieldErrors
              [(''emergency_contact_phone'',
                ''Phone number is required when emergency contact name is provided.'')])))
   \<and> ((data ''emergency_contact_name'' = None
         \<or> data ''emergency_contact_name'' = Some (Str []))
      \<longrightarrow> validate data = Inr data)"
proof (intro conjI impI)
  assume a: "data ''emergency_contact_name'' = Some (Str n) \<and> n \<noteq> []
      \<and> (data ''emergency_contact_phone'' = None
           \<or> data ''emergency_contact_phone'' = Some (Str []))"
  then have "truthy (data ''emergency_contact_name'')"
    by (simp add: truthy_def)
  moreover from a have "\<not> truthy (data ''emergency_contact_phone'')"
    by (auto simp add: truthy_def)
  ultimately show "validate data =
      Inl (ValidationError (FieldErrors
        [(''emergency_contact_phone'',
          ''Phone number is required when emergency contact name is provided.'')]))"
    by (simp add: validate_def Let_def)
next
  assume "data ''emergency_contact_name'' = None
      \<or> data ''emergency_contact_name'' = Some (Str [])"
  then have "\<not> truthy (data ''emergency_contact_name'')"
    by (auto simp add: truthy_def)
  then show "validate data = Inr data"
    by (simp add: validate_def Let_def)
qed

lemma update_accepts_both_empty: "validate both_empty = Inr both_empty"
  by (simp add: validate_def truthy_def both_empty_def)

text \<open>
  The validator of the model column accepts a phone without \<open>+\<close>: the pattern makes the
  sign optional.  It rejects \<open>1234567\<close>, which is too short.
\<close>

lemma model_regex_examples:
  "phone_regex ''0700123456''" "length ''0700123456'' \<le> 15"
  "\<not> phone_regex ''1234567''" "phone_regex ''+1234567890''"
  by (simp_all add: phone_regex_def optional_one_def digits_to_end_def isdigit_def)

text \<open>
  Claim C6 says that every candidate field set whose emergency contact phone is
  non-empty and does not start with \<open>+\<close> fails validation.  On the create path it does
  not: the phone \<open>0700123456\<close>, which the update serializer's hook rejects, is the value
  of \<open>emergency_contact_phone\<close> in the data that \<open>create\<close> receives for Ada, and
  \<open>create\<close> succeeds and stores a row with that phone.
\<close>

theorem create_accepts_phone_without_plus:
  "validate_emergency_contact_phone ''0700123456'' =
     Inl (ValidationError (Message ''Emergency contact phone must start with '+'.''))
   \<and> phone_without_plus ''emergency_contact_phone'' = Some (Str ''0700123456'')
   \<and> create ada phone_without_plus Map.empty
       = (Inr ada_plain_phone, [pk ada \<mapsto> ada_plain_phone])
   \<and> emergency_contact_phone ada_plain_phone = ''0700123456''"
  by (simp add: validate_emergency_contact_phone_def startswith_def create_def
      objects_create_def Let_def save_def phone_without_plus_def ada_plain_phone_def ada_def
      str_kwarg_def bool_kwarg_def calculate_profile_completion_def)

text \<open>
  Claim C7 says that every candidate field set with a non-empty emergency contact name
  and a missing or empty emergency contact phone fails validation.  On the create path
  it does not: the data with name \<open>Jane\<close> and an empty phone, which the update
  serializer's \<open>validate\<close> rejects, are accepted by \<open>create\<close> for Ada, which stores a
  row with the name and no phone.
\<close>

theorem create_accepts_name_without_phone:
  "validate name_without_phone =
     Inl (ValidationError (FieldErrors
       [(''emergency_contact_phone'',
         ''Phone number is required when emergency contact name is provided.'')]))
   \<and> name_without_phone ''emergency_contact_name'' = Some (Str ''Jane'')
   \<and> name_without_phone ''emergency_contact_phone'' = Some (Str [])
   \<and> create ada name_without_phone Map.empty
       = (Inr ada_name_only, [pk ada \<mapsto> ada_name_only])
   \<and> emergency_contact_name ada_name_only = ''Jane''
   \<and> emergency_contact_phone ada_name_only = []"
  by (simp add: validate_def truthy_def create_def
      objects_create_def Let_def save_def name_without_phone_def ada_name_only_def ada_def
      str_kwarg_def bool_kwarg_def calculate_profile_completion_def)

text \<open>
  Claim C8. Creating a profile for a user whose \<open>user_type\<close> is not \<open>passenger\<close> fails
  with the validation error "Only users with type 'passenger' can create passenger
  profiles." and leaves the table unchanged.
\<close>

theorem create_rejects_non_passenger:
  "user_type u \<noteq> ''passenger'' \<Longrightarrow>
   create u validated_data d =
     (Inl (ValidationError (Message
        ''Only users with type 'passenger' can create passenger profiles.'')), d)"
  by (rule create_not_passenger)

theorem create_rejects_non_passenger_witness:
  "user_type bob = ''rider'' \<and> user_type bob \<noteq> ''passenger''
   \<and> create bob contact_fields Map.empty =
     (Inl (ValidationError (Message
        ''Only users with type 'passenger' can create passenger profiles.'')), Map.empty)
   \<and> snd (create bob contact_fields Map.empty) (pk bob) = None"
proof -
  have t: "user_type bob = ''rider''" by (simp add: bob_def)
  then have n: "user_type bob \<noteq> ''passenger''" by simp
  from create_rejects_non_passenger [OF n, of contact_fields Map.empty] t n
  show ?thesis by simp
qed

section \<open>Helper lemmas on strings\<close>

lemma split_str_nonempty: "split_str s c \<noteq> []"
  by (induction s) (auto split: list.splits)

lemma hd_split_str: "hd (split_str s c) = takeWhile (\<lambda>x. x \<noteq> c) s"
  by (induction s) (auto split: list.splits simp add: split_str_nonempty)

lemma strip_unchanged:
  assumes "s \<noteq> []" and "\<not> isspace (hd s)" and "\<not> isspace (last s)"
  shows "strip s = s"
proof -
  from assms(2) have "dropWhile isspace s = s"
    by (simp add: dropWhile_eq_self_iff)
  moreover from assms(3) have "dropWhile isspace (rev s) = rev s"
    by (simp add: dropWhile_eq_self_iff hd_rev)
  ultimately show ?thesis by (simp add: strip_def)
qed

section \<open>Properties of the full name\<close>

text \<open>
  Claim C10 as stated fails: for Ada, whose last name is stored as "Lovelace " with a
  trailing space, both names are non-empty and the full name is "Ada Lovelace", not the
  first name, a space and the last name.
\<close>

theorem full_name_not_plain_concatenation:
  "first_name (user ada_padded) \<noteq> [] \<and> last_name (user ada_padded) \<noteq> []
   \<and> get_full_name ada_padded = ''Ada Lovelace''
   \<and> first_name (user ada_padded) @ '' '' @ last_name (user ada_padded) = ''Ada Lovelace ''
   \<and> get_full_name ada_padded
       \<noteq> first_name (user ada_padded) @ '' '' @ last_name (user ada_padded)"
  by (simp add: get_full_name_def ada_padded_def ada_profile_def ada_def strip_def isspace_def)

text \<open>
  Claim C10, amended. When first and last name are both non-empty, the full name is the
  first name, a space and the last name with leading and trailing whitespace removed; it
  is exactly the first name, a space and the last name when the first name does not
  start and the last name does not end with whitespace.  Otherwise it is the part of the
  email before the first \<open>@\<close> (the whole email when it has none).
\<close>

theorem full_name_rule:
  "(first_name (user obj) \<noteq> [] \<and> last_name (user obj) \<noteq> [] \<longrightarrow>
      get_full_name obj = strip (first_name (user obj) @ '' '' @ last_name (user obj)))
   \<and> (first_name (user obj) \<noteq> [] \<and> last_name (user obj) \<noteq> []
       \<and> \<not> isspace (hd (first_name (user obj))) \<and> \<not> isspace (last (last_name (user obj)))
      \<longrightarrow> get_full_name obj = first_name (user obj) @ '' '' @ last_name (user obj))
   \<and> (first_name (user obj) = [] \<or> last_name (user obj) = [] \<longrightarrow>
      get_full_name obj = takeWhile (\<lambda>c. c \<noteq> CHR ''@'') (email (user obj)))"
proof (intro conjI impI)
  assume "first_name (user obj) \<noteq> [] \<and> last_name (user obj) \<noteq> []"
  then show "get_full_name obj = strip (first_name (user obj) @ '' '' @ last_name (user obj))"
    by (simp add: get_full_name_def)
next
  assume a: "first_name (user obj) \<noteq> [] \<and> last_name (user obj) \<noteq> []
       \<and> \<not> isspace (hd (first_name (user obj))) \<and> \<not> isspace (last (last_name (user obj)))"
  let ?s = "first_name (user obj) @ '' '' @ last_name (user obj)"
  from a have "?s \<noteq> []" and "\<not> isspace (hd ?s)" and "\<not> isspace (last ?s)"
    by simp_all
  then have "strip ?s = ?s" by (rule strip_unchanged)
  with a show "get_full_name obj = ?s"
    by (simp add: get_full_name_def)
next
  assume "first_name (user obj) = [] \<or> last_name (user obj) = []"
  then show "get_full_name obj = takeWhile (\<lambda>c. c \<noteq> CHR ''@'') (email (user obj))"
    by (auto simp add: get_full_name_def hd_split_str)
qed

theorem full_name_rule_witness:
  "last_name (user ada_padded) = ''Lovelace '' \<and> get_full_name ada_padded = ''Ada Lovelace''
   \<and> first_name (user ada_profile) = ''Ada'' \<and> last_name (user ada_profile) = ''Lovelace''
   \<and> get_full_name ada_profile = ''Ada Lovelace''
   \<and> last_name (user bob_profile) = [] \<and> email (user bob_profile) = ''bob@example.com''
   \<and> get_full_name bob_profile = ''bob''"
proof -
  have p: "first_name (user ada_padded) = ''Ada''" "last_name (user ada_padded) = ''Lovelace ''"
    by (simp_all add: ada_padded_def ada_profile_def ada_def)
  have a: "first_name (user ada_profile) = ''Ada''" "last_name (user ada_profile) = ''Lovelace''"
    by (simp_all add: ada_profile_def ada_def)
  have b: "last_name (user bob_profile) = []" "email (user bob_profile) = ''bob@example.com''"
    by (simp_all add: bob_profile_def ada_profile_def bob_def)
  from p full_name_rule [of ada_padded]
  have 1: "get_full_name ada_padded = ''Ada Lovelace''"
    by (simp add: strip_def isspace_def)
  from a full_name_rule [of ada_profile]
  have 2: "get_full_name ada_profile = ''Ada Lovelace''"
    by (simp add: strip_def isspace_def)
  from b full_name_rule [of bob_profile]
  have 3: "get_full_name bob_profile = ''bob''"
    by simp
  from p a b 1 2 3 show ?thesis by simp
qed

end
